theory Spec2Isabelle
  imports Main
begin

section \<open>Python values, errors and text helpers\<close>

text \<open>
  The scrapers of \<^verbatim>\<open>src/pyscraper/scrape.py\<close> are embedded as HOL functions.
  An exception is a value \<open>Inl e\<close> of a sum type, Python's \<open>None\<close> is \<open>None\<close>
  of an option type, and what \<^verbatim>\<open>print\<close> writes is returned as a list of lines.
  Strings are lists of characters; the labels and codes handled here are ASCII text.
\<close>

datatype error =
    KeyError | ValueError | IndexError | AttributeError
  | OutOfBoundsDatetime | TransportError

definition is_digit :: "char \<Rightarrow> bool" where
  "is_digit c = (c \<in> set ''0123456789'')"

definition is_upper_AZ :: "char \<Rightarrow> bool" where
  "is_upper_AZ c = (c \<in> set ''ABCDEFGHIJKLMNOPQRSTUVWXYZ'')"

definition newline :: char where
  "newline = CHR 0x0A"

text \<open>Python's \<^verbatim>\<open>str.isspace\<close> on ASCII: tab, LF, VT, FF, CR, FS, GS, RS, US and space.\<close>

definition is_space :: "char \<Rightarrow> bool" where
  "is_space c = (c \<in> {CHR 0x09, CHR 0x0A, CHR 0x0B, CHR 0x0C, CHR 0x0D,
                       CHR 0x1C, CHR 0x1D, CHR 0x1E, CHR 0x1F, CHR '' ''})"

section \<open>The regular expressions of \<^verbatim>\<open>re_dict\<close>\<close>

text \<open>
  \<^verbatim>\<open>from_ONS\<close> filters with three patterns, \<^verbatim>\<open>\d{4,4} Q\d$\<close>, \<^verbatim>\<open>\d{4,4}$\<close> and
  \<^verbatim>\<open>\d{4,4} [A-Z]{3,3}$\<close>. A pattern is a sequence of items: a character class, a
  counted repetition \<^verbatim>\<open>{m,n}\<close> of a class, or the anchor \<^verbatim>\<open>$\<close>, which (without
  MULTILINE) matches at the end of the string and just before a newline that ends the
  string.
\<close>

datatype cclass = Digit | UpperAZ | Lit char

datatype rx = One cclass | Rep cclass nat nat | Eos

fun in_class :: "cclass \<Rightarrow> char \<Rightarrow> bool" where
  "in_class Digit c = is_digit c"
| "in_class UpperAZ c = is_upper_AZ c"
| "in_class (Lit l) c = (c = l)"

text \<open>\<open>match_here p s\<close>: the pattern \<open>p\<close> matches a prefix of \<open>s\<close> (\<^verbatim>\<open>re.match\<close>).\<close>

fun match_here :: "rx list \<Rightarrow> string \<Rightarrow> bool" where
  "match_here [] s = True"
| "match_here (One c # p) s =
     (case s of [] \<Rightarrow> False | x # xs \<Rightarrow> in_class c x \<and> match_here p xs)"
| "match_here (Rep c m n # p) s =
     list_ex (\<lambda>k. k \<le> length s \<and> list_all (in_class c) (take k s) \<and> match_here p (drop k s))
       [m..<Suc n]"
| "match_here (Eos # p) s = ((s = [] \<or> s = [newline]) \<and> match_here p s)"

text \<open>\<^verbatim>\<open>re.search\<close>: a match starting at any position of the string.\<close>

definition re_search :: "rx list \<Rightarrow> string \<Rightarrow> bool" where
  "re_search p s = list_ex (\<lambda>i. match_here p (drop i s)) [0..<Suc (length s)]"

definition re_dict :: "string \<Rightarrow> rx list option" where
  "re_dict k =
     (if k = ''Q'' then Some [Rep Digit 4 4, One (Lit CHR '' ''), One (Lit CHR ''Q''), One Digit, Eos]
      else if k = ''A'' then Some [Rep Digit 4 4, Eos]
      else if k = ''M'' then Some [Rep Digit 4 4, One (Lit CHR '' ''), Rep UpperAZ 3 3, Eos]
      else None)"

section \<open>Raw tables and the row filter\<close>

text \<open>
  A raw table as \<^verbatim>\<open>pd.read_csv\<close> returns it: rows in file order, each with the cell of
  the label column \<^verbatim>\<open>'Unnamed: 0'\<close> (a string, or \<open>None\<close> for a missing value, NaN) and
  the cells of the other columns. The label column is a column of text, as in the files
  of the ONS, whose first column also holds titles and notes; a table without that
  column, or with numbers in it, is not a value of this type.
  \<^verbatim>\<open>.str.contains(pat, na=False)\<close> is \<^verbatim>\<open>re.search\<close> on each string and \<open>False\<close> on a
  missing value; \<^verbatim>\<open>dfraw[criterion]\<close> keeps the rows whose criterion is true, in order.
\<close>

type_synonym 'c rawrow = "string option \<times> 'c list"

definition str_contains :: "rx list \<Rightarrow> string option \<Rightarrow> bool" where
  "str_contains p l = (case l of None \<Rightarrow> False | Some s \<Rightarrow> re_search p s)"

definition row_filter :: "rx list \<Rightarrow> 'c rawrow list \<Rightarrow> 'c rawrow list" where
  "row_filter p rows = filter (\<lambda>r. str_contains p (fst r)) rows"

section \<open>Text operations of Python\<close>

definition upper_char :: "char \<Rightarrow> char" where
  "upper_char c =
     (case map_of (zip ''abcdefghijklmnopqrstuvwxyz'' ''ABCDEFGHIJKLMNOPQRSTUVWXYZ'') c of
        Some u \<Rightarrow> u | None \<Rightarrow> c)"

definition lower_char :: "char \<Rightarrow> char" where
  "lower_char c =
     (case map_of (zip ''ABCDEFGHIJKLMNOPQRSTUVWXYZ'' ''abcdefghijklmnopqrstuvwxyz'') c of
        Some l \<Rightarrow> l | None \<Rightarrow> c)"

definition str_upper :: "string \<Rightarrow> string" where
  "str_upper s = map upper_char s"

definition str_lower :: "string \<Rightarrow> string" where
  "str_lower s = map lower_char s"

text \<open>\<^verbatim>\<open>s.strip()\<close>: whitespace removed at both ends.\<close>

definition str_strip :: "string \<Rightarrow> string" where
  "str_strip s = rev (dropWhile is_space (rev (dropWhile is_space s)))"

text \<open>\<^verbatim>\<open>s.replace(c, '')\<close> for a one-character \<open>c\<close>.\<close>

definition str_remove :: "char \<Rightarrow> string \<Rightarrow> string" where
  "str_remove c s = filter (\<lambda>x. x \<noteq> c) s"

text \<open>\<^verbatim>\<open>','.join(xs)\<close>.\<close>

fun join_comma :: "string list \<Rightarrow> string" where
  "join_comma [] = []"
| "join_comma [x] = x"
| "join_comma (x # y # ys) = x @ '','' @ join_comma (y # ys)"

text \<open>\<^verbatim>\<open>s.split()\<close>: the maximal runs of non-whitespace, in order.\<close>

fun split_acc :: "string \<Rightarrow> string \<Rightarrow> string list" where
  "split_acc cur [] = (if cur = [] then [] else [cur])"
| "split_acc cur (c # cs) =
     (if is_space c then (if cur = [] then split_acc [] cs else cur # split_acc [] cs)
      else split_acc (cur @ [c]) cs)"

definition str_split :: "string \<Rightarrow> string list" where
  "str_split s = split_acc [] s"

text \<open>\<^verbatim>\<open>s.split(sep)\<close> for a one-character separator: empty pieces are kept.\<close>

fun split_on :: "char \<Rightarrow> string \<Rightarrow> string list" where
  "split_on sep [] = [[]]"
| "split_on sep (c # cs) =
     (if c = sep then [] # split_on sep cs
      else (case split_on sep cs of [] \<Rightarrow> [[c]] | t # ts \<Rightarrow> (c # t) # ts))"

definition digit_val :: "char \<Rightarrow> nat" where
  "digit_val c =
     (case map_of (zip ''0123456789'' [0, 1, 2, 3, 4, 5, 6, 7, 8, 9]) c of
        Some n \<Rightarrow> n | None \<Rightarrow> 0)"

text \<open>The value of a string of decimal digits.\<close>

definition nat_of_digits :: "string \<Rightarrow> nat" where
  "nat_of_digits s = foldl (\<lambda>n c. 10 * n + digit_val c) 0 s"

text \<open>\<^verbatim>\<open>int(s)\<close> on a one-character string: \<open>None\<close> stands for the ValueError.\<close>

definition int_of_char :: "char \<Rightarrow> nat option" where
  "int_of_char c = (if is_digit c then Some (digit_val c) else None)"

definition digit_char :: "nat \<Rightarrow> char" where
  "digit_char n = ''0123456789'' ! (n mod 10)"

text \<open>\<^verbatim>\<open>str(n)\<close> for a natural number.\<close>

fun str_nat :: "nat \<Rightarrow> string" where
  "str_nat n = (if n < 10 then [digit_char n] else str_nat (n div 10) @ [digit_char n])"

declare str_nat.simps [simp del]

text \<open>Running a fallible function over a list: the first exception ends the run.\<close>

fun map_result :: "('a \<Rightarrow> error + 'b) \<Rightarrow> 'a list \<Rightarrow> error + 'b list" where
  "map_result f [] = Inr []"
| "map_result f (x # xs) =
     (case f x of
        Inl e \<Rightarrow> Inl e
      | Inr y \<Rightarrow> (case map_result f xs of Inl e \<Rightarrow> Inl e | Inr ys \<Rightarrow> Inr (y # ys)))"

section \<open>Timestamps\<close>

text \<open>
  A pandas \<^verbatim>\<open>Timestamp\<close> at midnight is its calendar date. Timestamps count nanoseconds
  in 64 bits, from 1677-09-21 00:12:43.145224193 to 2262-04-11 23:47:16.854775807, so a
  midnight is representable from 1677-09-22 to 2262-04-11; outside, pandas raises
  \<^verbatim>\<open>OutOfBoundsDatetime\<close>.
\<close>

datatype timestamp = Timestamp (year: nat) (month: nat) (day: nat)

definition is_leap :: "nat \<Rightarrow> bool" where
  "is_leap y = (y mod 4 = 0 \<and> (y mod 400 = 0 \<or> y mod 100 \<noteq> 0))"

definition days_in_month :: "nat \<Rightarrow> nat \<Rightarrow> nat" where
  "days_in_month y m =
     (if m = 2 then (if is_leap y then 29 else 28)
      else if m = 4 \<or> m = 6 \<or> m = 9 \<or> m = 11 then 30 else 31)"

definition valid_date :: "nat \<Rightarrow> nat \<Rightarrow> nat \<Rightarrow> bool" where
  "valid_date y m d =
     (1 \<le> y \<and> y \<le> 9999 \<and> 1 \<le> m \<and> m \<le> 12 \<and> 1 \<le> d \<and> d \<le> days_in_month y m)"

definition in_bounds :: "timestamp \<Rightarrow> bool" where
  "in_bounds t =
     ((1677 < year t \<or> (year t = 1677 \<and> (9 < month t \<or> (month t = 9 \<and> 22 \<le> day t))))
      \<and> (year t < 2262 \<or> (year t = 2262 \<and> (month t < 4 \<or> (month t = 4 \<and> day t \<le> 11)))))"

definition make_timestamp :: "nat \<Rightarrow> nat \<Rightarrow> nat \<Rightarrow> error + timestamp" where
  "make_timestamp y m d =
     (if \<not> valid_date y m d then Inl ValueError
      else if \<not> in_bounds (Timestamp y m d) then Inl OutOfBoundsDatetime
      else Inr (Timestamp y m d))"

section \<open>Date reconstruction\<close>

subsection \<open>\<^verbatim>\<open>pd.to_datetime\<close> with a format\<close>

text \<open>
  \<^verbatim>\<open>pd.to_datetime(index, format=f, errors='raise')\<close> parses every label with
  \<^verbatim>\<open>strptime\<close>; the whole label must match the format, fields that the format does not
  name take their defaults (month 1, day 1), and one failing label raises. The format
  \<^verbatim>\<open>%Y\<close> is four digits. In \<^verbatim>\<open>%Y %b\<close> the blank of the format stands for one or more
  whitespace characters and \<^verbatim>\<open>%b\<close> for an abbreviated month name of the C locale, in
  any letter case. A missing label (NaN) becomes the missing timestamp NaT, here \<open>None\<close>.
\<close>

definition month_abbrs :: "string list" where
  "month_abbrs = [''jan'', ''feb'', ''mar'', ''apr'', ''may'', ''jun'',
                  ''jul'', ''aug'', ''sep'', ''oct'', ''nov'', ''dec'']"

fun index_of :: "'a \<Rightarrow> 'a list \<Rightarrow> nat option" where
  "index_of x [] = None"
| "index_of x (y # ys) = (if x = y then Some 0 else map_option Suc (index_of x ys))"

definition month_of_abbr :: "string \<Rightarrow> nat option" where
  "month_of_abbr s = map_option Suc (index_of (str_lower s) month_abbrs)"

definition strptime_Y :: "string \<Rightarrow> error + timestamp" where
  "strptime_Y s =
     (if length s = 4 \<and> list_all is_digit s then make_timestamp (nat_of_digits s) 1 1
      else Inl ValueError)"

definition strptime_Y_b :: "string \<Rightarrow> error + timestamp" where
  "strptime_Y_b s =
     (if 4 \<le> length s \<and> list_all is_digit (take 4 s) then
        (let r = drop 4 s; r' = dropWhile is_space r in
         if r' = r then Inl ValueError
         else (case month_of_abbr r' of
                 None \<Rightarrow> Inl ValueError
               | Some m \<Rightarrow> make_timestamp (nat_of_digits (take 4 s)) m 1))
      else Inl ValueError)"

definition to_datetime ::
  "(string \<Rightarrow> error + timestamp) \<Rightarrow> string option list \<Rightarrow> error + timestamp option list" where
  "to_datetime strptime labels =
     map_result (\<lambda>l. case l of
                        None \<Rightarrow> Inr None
                      | Some s \<Rightarrow> (case strptime s of Inl e \<Rightarrow> Inl e | Inr t \<Rightarrow> Inr (Some t)))
       labels"

subsection \<open>\<^verbatim>\<open>pd.date_range\<close> with a start string and \<^verbatim>\<open>freq='Q-DEC'\<close>\<close>

text \<open>
  \<^verbatim>\<open>pd.date_range(start, periods=n, freq='Q-DEC')\<close> first turns the string \<open>start\<close>
  into a timestamp. pandas reads a date of three numbers separated by slashes, the last
  of four digits, month first (\<^verbatim>\<open>dayfirst=False\<close>): \<^verbatim>\<open>'1/6/2002'\<close> is the 6th of
  January 2002; only a first number above 12 is taken as the day. What the parser does
  with any other text is left to the parameter \<open>parse_other\<close>.

  The range then holds \<open>n\<close> quarter ends (the last days of March, June, September and
  December): the start moved forward to the first quarter end on or after it, and the
  quarter ends that follow.
\<close>

definition parse_datetime_string ::
  "(string \<Rightarrow> error + timestamp) \<Rightarrow> string \<Rightarrow> error + timestamp" where
  "parse_datetime_string parse_other s =
     (case split_on CHR ''/'' s of
        [a, b, c] \<Rightarrow>
          if a \<noteq> [] \<and> length a \<le> 2 \<and> list_all is_digit a \<and>
             b \<noteq> [] \<and> length b \<le> 2 \<and> list_all is_digit b \<and>
             length c = 4 \<and> list_all is_digit c
          then (if nat_of_digits a \<le> 12
                then make_timestamp (nat_of_digits c) (nat_of_digits a) (nat_of_digits b)
                else make_timestamp (nat_of_digits c) (nat_of_digits b) (nat_of_digits a))
          else parse_other s
      | _ \<Rightarrow> parse_other s)"

definition quarter_end :: "nat \<Rightarrow> nat \<Rightarrow> timestamp" where
  "quarter_end y m = Timestamp y m (days_in_month y m)"

text \<open>\<^verbatim>\<open>QuarterEnd(startingMonth=12).rollforward\<close>.\<close>

definition rollforward :: "timestamp \<Rightarrow> timestamp" where
  "rollforward t = quarter_end (year t) (3 * ((month t + 2) div 3))"

definition next_quarter_end :: "timestamp \<Rightarrow> timestamp" where
  "next_quarter_end t =
     (if month t = 12 then quarter_end (year t + 1) 3 else quarter_end (year t) (month t + 3))"

fun quarter_ends_from :: "timestamp \<Rightarrow> nat \<Rightarrow> timestamp list" where
  "quarter_ends_from t 0 = []"
| "quarter_ends_from t (Suc n) = t # quarter_ends_from (next_quarter_end t) n"

definition date_range_Q ::
  "(string \<Rightarrow> error + timestamp) \<Rightarrow> string \<Rightarrow> nat \<Rightarrow> error + timestamp list" where
  "date_range_Q parse_other start periods =
     (case parse_datetime_string parse_other start of
        Inl e \<Rightarrow> Inl e
      | Inr t \<Rightarrow>
          (let ds = quarter_ends_from (rollforward t) periods in
           if list_all in_bounds ds then Inr ds else Inl OutOfBoundsDatetime))"

subsection \<open>\<^verbatim>\<open>_create_quarterly_index\<close> and \<^verbatim>\<open>_timeseries_index\<close>\<close>

text \<open>
  \<^verbatim>\<open>thedate = dfindex.values[0].split()\<close>, then
  \<^verbatim>\<open>starting_quarter = str(3 * int(thedate[1][-1]))\<close>, \<^verbatim>\<open>starting_year = thedate[0]\<close> and
  \<^verbatim>\<open>pd.date_range('1/' + starting_quarter + '/' + starting_year, periods=len(dfindex), freq='Q-DEC')\<close>.
  Only the first label is read. An empty index has no first value (IndexError), a missing
  label has no \<^verbatim>\<open>split\<close> (AttributeError), a label of one word has no \<^verbatim>\<open>thedate[1]\<close>
  (IndexError), and \<^verbatim>\<open>int\<close> of a character that is no digit is a ValueError.
\<close>

definition create_quarterly_index ::
  "(string \<Rightarrow> error + timestamp) \<Rightarrow> string option list \<Rightarrow> error + timestamp list" where
  "create_quarterly_index parse_other dfindex =
     (case dfindex of
        [] \<Rightarrow> Inl IndexError
      | None # _ \<Rightarrow> Inl AttributeError
      | Some l # _ \<Rightarrow>
          (case str_split l of
             y # q # _ \<Rightarrow>
               (case int_of_char (last q) of
                  None \<Rightarrow> Inl ValueError
                | Some n \<Rightarrow>
                    (let starting_quarter = str_nat (3 * n); starting_year = y in
                     date_range_Q parse_other
                       (''1/'' @ starting_quarter @ ''/'' @ starting_year) (length dfindex)))
           | _ \<Rightarrow> Inl IndexError))"

text \<open>
  A frame: its index (the labels as they were, or timestamps) and the cells of its rows.
  \<^verbatim>\<open>set_index('Unnamed: 0')\<close> makes the label column the index.
\<close>

datatype idx = Labels "string option list" | Stamps "timestamp option list"

record 'c frame =
  index :: idx
  cells :: "'c list list"

definition timeseries_index ::
  "(string \<Rightarrow> error + timestamp) \<Rightarrow> 'c rawrow list \<Rightarrow> string \<Rightarrow> error + 'c frame" where
  "timeseries_index parse_other df freq =
     (let labels = map fst df; rows = map snd df in
      if freq = ''Q'' then
        (case create_quarterly_index parse_other labels of
           Inl e \<Rightarrow> Inl e
         | Inr ts \<Rightarrow> Inr \<lparr>index = Stamps (map Some ts), cells = rows\<rparr>)
      else if freq = ''M'' then
        (case to_datetime strptime_Y_b labels of
           Inl e \<Rightarrow> Inl e
         | Inr ts \<Rightarrow> Inr \<lparr>index = Stamps ts, cells = rows\<rparr>)
      else if freq = ''A'' then
        (case to_datetime strptime_Y labels of
           Inl e \<Rightarrow> Inl e
         | Inr ts \<Rightarrow> Inr \<lparr>index = Stamps ts, cells = rows\<rparr>)
      else Inr \<lparr>index = Labels labels, cells = rows\<rparr>)"

section \<open>The ONS importer\<close>

text \<open>
  \<^verbatim>\<open>_retrieve_ONS_csv\<close> cleans its arguments and builds the address of the csv file.
\<close>

definition retrieve_ONS_csv :: "string \<Rightarrow> string list \<Rightarrow> string" where
  "retrieve_ONS_csv dataset series =
     (let dataset' = str_strip (str_lower dataset);
          series' = map (\<lambda>s. str_remove CHR '' '' (str_upper s)) series
      in ''http://www.ons.gov.uk/ons/datasets-and-tables/downloads/csv.csv?dataset='' @ dataset'
         @ ''&cdid='' @ join_comma series')"

text \<open>
  \<^verbatim>\<open>from_ONS(dataset, series, freq, print_url)\<close>. Three things are outside the file and
  are parameters: \<open>read_csv\<close>, the download and decoding of the table at an address
  (it may raise); \<open>parse_other\<close>, see \<open>parse_datetime_string\<close>; and \<open>to_float\<close>,
  the conversion of one cell by \<^verbatim>\<open>df.astype(float)\<close> (it raises on text that is no
  number). The statements run in the order of the source: the address is printed when
  asked, the table is read, \<^verbatim>\<open>re_dict[freq]\<close> is looked up (KeyError for a key that is
  not there), the rows are filtered, and with no row left the message is printed and the
  function returns \<open>None\<close>. Otherwise the index is rebuilt and the cells are converted.
  The result is the raised exception or the returned value, with the printed lines.
\<close>

definition astype_float :: "('c \<Rightarrow> error + 'f) \<Rightarrow> 'c frame \<Rightarrow> error + 'f frame" where
  "astype_float to_float df =
     (case map_result (map_result to_float) (cells df) of
        Inl e \<Rightarrow> Inl e
      | Inr rows \<Rightarrow> Inr \<lparr>index = index df, cells = rows\<rparr>)"

definition from_ONS ::
  "(string \<Rightarrow> error + 'c rawrow list) \<Rightarrow> (string \<Rightarrow> error + timestamp) \<Rightarrow> ('c \<Rightarrow> error + 'f)
     \<Rightarrow> string \<Rightarrow> string list \<Rightarrow> string \<Rightarrow> bool \<Rightarrow> (error + 'f frame option) \<times> string list" where
  "from_ONS read_csv parse_other to_float dataset series freq print_url =
     (let freq' = str_upper freq;
          myfile = retrieve_ONS_csv dataset series;
          out = (if print_url then [myfile] else [])
      in case read_csv myfile of
           Inl e \<Rightarrow> (Inl e, out)
         | Inr dfraw \<Rightarrow>
             (case re_dict freq' of
                None \<Rightarrow> (Inl KeyError, out)
              | Some p \<Rightarrow>
                  (let selected = row_filter p dfraw in
                   if selected = [] then
                     (Inr None, out @ [''That frequency is unavailable for your series.''])
                   else
                     (case timeseries_index parse_other selected freq' of
                        Inl e \<Rightarrow> (Inl e, out)
                      | Inr df \<Rightarrow>
                          (case astype_float to_float df of
                             Inl e \<Rightarrow> (Inl e, out)
                           | Inr df' \<Rightarrow> (Inr (Some df'), out))))))"

section \<open>The numeric coercer \<^verbatim>\<open>float_convert\<close>\<close>

text \<open>
  The values a cell can hold. The floating-point numbers themselves are a type
  parameter \<open>'f\<close>: rounding a decimal numeral to binary floating point is not modelled.
\<close>

datatype 'f pyval = PStr string | PFloat 'f | PInt int | PBool bool | PNone

definition quote :: char where
  "quote = CHR 0x27"

fun type_name :: "'f pyval \<Rightarrow> string" where
  "type_name (PStr _) = ''str''"
| "type_name (PFloat _) = ''float''"
| "type_name (PInt _) = ''int''"
| "type_name (PBool _) = ''bool''"
| "type_name PNone = ''NoneType''"

text \<open>What \<^verbatim>\<open>print\<close> writes for \<^verbatim>\<open>type(s)\<close>.\<close>

definition type_repr :: "'f pyval \<Rightarrow> string" where
  "type_repr v = ''<class '' @ [quote] @ type_name v @ [quote] @ ''>''"

text \<open>
  The text that \<^verbatim>\<open>float(s)\<close> accepts, after the grammar of the language reference:
  whitespace around it is dropped; an optional sign; then \<^verbatim>\<open>inf\<close>, \<^verbatim>\<open>infinity\<close> or
  \<^verbatim>\<open>nan\<close> in any letter case, or a number \<^verbatim>\<open>[digitpart] "." digitpart | digitpart ["."]\<close>
  with an optional exponent \<^verbatim>\<open>("e" | "E") [sign] digitpart\<close>, where a digitpart is
  digits with single underscores between them. Any other text raises ValueError.
\<close>

fun digit_tail :: "string \<Rightarrow> string" where
  "digit_tail [] = []"
| "digit_tail [c] = (if is_digit c then [] else [c])"
| "digit_tail (c # d # r) =
     (if is_digit c then digit_tail (d # r)
      else if c = CHR ''_'' \<and> is_digit d then digit_tail r
      else c # d # r)"

text \<open>The rest of the text after its longest leading digitpart, if it has one.\<close>

definition digitpart :: "string \<Rightarrow> string option" where
  "digitpart s = (case s of [] \<Rightarrow> None | c # r \<Rightarrow> if is_digit c then Some (digit_tail r) else None)"

definition drop_sign :: "string \<Rightarrow> string" where
  "drop_sign s = (case s of [] \<Rightarrow> [] | c # r \<Rightarrow> if c = CHR ''+'' \<or> c = CHR ''-'' then r else s)"

definition number_part :: "string \<Rightarrow> string option" where
  "number_part s =
     (case digitpart s of
        Some r \<Rightarrow>
          (case r of
             [] \<Rightarrow> Some []
           | c # r' \<Rightarrow>
               if c = CHR ''.'' then (case digitpart r' of Some r'' \<Rightarrow> Some r'' | None \<Rightarrow> Some r')
               else Some r)
      | None \<Rightarrow>
          (case s of [] \<Rightarrow> None | c # r \<Rightarrow> if c = CHR ''.'' then digitpart r else None))"

definition exponent_ok :: "string \<Rightarrow> bool" where
  "exponent_ok s =
     (case s of
        [] \<Rightarrow> True
      | c # r \<Rightarrow> (c = CHR ''e'' \<or> c = CHR ''E'') \<and> digitpart (drop_sign r) = Some [])"

definition float_literal :: "string \<Rightarrow> bool" where
  "float_literal s =
     (let t = drop_sign (str_strip s) in
      str_lower t \<in> {''inf'', ''infinity'', ''nan''}
      \<or> (case number_part t of None \<Rightarrow> False | Some r \<Rightarrow> exponent_ok r))"

text \<open>
  \<^verbatim>\<open>float_convert(s)\<close>: a string loses its commas and goes to \<^verbatim>\<open>float\<close>, whose value on
  accepted text is the parameter \<open>float_of\<close>; a float is returned as it is; for any
  other value a line is printed and, no \<^verbatim>\<open>return\<close> being reached, the result is \<open>None\<close>.
\<close>

fun float_convert ::
  "(string \<Rightarrow> 'f) \<Rightarrow> 'f pyval \<Rightarrow> (error + 'f pyval) \<times> string list" where
  "float_convert float_of (PStr s) =
     (let t = str_remove CHR '','' s in
      if float_literal t then (Inr (PFloat (float_of t)), []) else (Inl ValueError, []))"
| "float_convert float_of (PFloat x) = (Inr (PFloat x), [])"
| "float_convert float_of v = (Inr PNone, [''Encountered type '' @ type_repr v])"

text \<open>
  \<^verbatim>\<open>dfdropped.applymap(float_convert)\<close> in \<^verbatim>\<open>_get_weo_data\<close> calls the function on the
  cells one after the other; an exception in one call ends the whole \<^verbatim>\<open>applymap\<close>.
\<close>

fun applymap :: "('a \<Rightarrow> (error + 'b) \<times> string list) \<Rightarrow> 'a list \<Rightarrow> (error + 'b list) \<times> string list" where
  "applymap f [] = (Inr [], [])"
| "applymap f (x # xs) =
     (case f x of
        (Inl e, out) \<Rightarrow> (Inl e, out)
      | (Inr y, out) \<Rightarrow>
          (case applymap f xs of
             (Inl e, out') \<Rightarrow> (Inl e, out @ out')
           | (Inr ys, out') \<Rightarrow> (Inr (y # ys), out @ out')))"

section \<open>The IMF importer\<close>

text \<open>
  A pandas \<^verbatim>\<open>Panel\<close>: the labels of its three axes (items: the series codes; major
  axis: the countries; minor axis: the years) and its values, one block per item, one row
  per country in a block, one cell per year in a row. A cell is a number or missing
  (NaN, here \<open>None\<close>). The panels that \<^verbatim>\<open>to_panel\<close> builds have no label twice on an
  axis.
\<close>

record 'v panel =
  items :: "string list"
  major_axis :: "string list"
  minor_axis :: "string list"
  panel_values :: "'v option list list list"

text \<open>
  \<^verbatim>\<open>.loc\<close> with a list of labels on one axis. In the pandas releases that have
  \<^verbatim>\<open>Panel\<close>, a list that is not empty and has none of its labels on the axis raises
  KeyError; otherwise the result has the listed labels in the listed order, and a label
  that is not on the axis gets missing values. The indexer gives the position of each
  listed label on the axis, if it has one.
\<close>

definition loc_indexer :: "string list \<Rightarrow> string list \<Rightarrow> error + nat option list" where
  "loc_indexer keys axis =
     (if keys \<noteq> [] \<and> list_all (\<lambda>k. k \<notin> set axis) keys then Inl KeyError
      else Inr (map (\<lambda>k. index_of k axis) keys))"

definition take_or :: "'a \<Rightarrow> 'a list \<Rightarrow> nat option \<Rightarrow> 'a" where
  "take_or missing xs i =
     (case i of None \<Rightarrow> missing | Some n \<Rightarrow> if n < length xs then xs ! n else missing)"

definition missing_row :: "'v panel \<Rightarrow> 'v option list" where
  "missing_row p = replicate (length (minor_axis p)) None"

definition missing_block :: "'v panel \<Rightarrow> 'v option list list" where
  "missing_block p = replicate (length (major_axis p)) (missing_row p)"

text \<open>\<^verbatim>\<open>rawdata.loc[series, :, :]\<close>\<close>

definition loc_items :: "string list \<Rightarrow> 'v panel \<Rightarrow> error + 'v panel" where
  "loc_items series p =
     (case loc_indexer series (items p) of
        Inl e \<Rightarrow> Inl e
      | Inr ix \<Rightarrow>
          Inr (p\<lparr>items := series, panel_values := map (take_or (missing_block p) (panel_values p)) ix\<rparr>))"

text \<open>\<^verbatim>\<open>rawdata.loc[:, countries, :]\<close>\<close>

definition loc_major :: "string list \<Rightarrow> 'v panel \<Rightarrow> error + 'v panel" where
  "loc_major countries p =
     (case loc_indexer countries (major_axis p) of
        Inl e \<Rightarrow> Inl e
      | Inr ix \<Rightarrow>
          Inr (p\<lparr>major_axis := countries,
                 panel_values := map (\<lambda>block. map (take_or (missing_row p) block) ix) (panel_values p)\<rparr>))"

text \<open>\<^verbatim>\<open>rawdata.loc[series, countries, :]\<close>\<close>

definition loc_items_major :: "string list \<Rightarrow> string list \<Rightarrow> 'v panel \<Rightarrow> error + 'v panel" where
  "loc_items_major series countries p =
     (case loc_items series p of Inl e \<Rightarrow> Inl e | Inr p' \<Rightarrow> loc_major countries p')"

text \<open>
  The selection at the end of \<^verbatim>\<open>from_IMF\<close> (the four \<^verbatim>\<open>return\<close> statements): an
  argument left at its default is \<open>None\<close>.
\<close>

definition from_IMF_select ::
  "'v panel \<Rightarrow> string list option \<Rightarrow> string list option \<Rightarrow> error + 'v panel" where
  "from_IMF_select rawdata series countries =
     (case (series, countries) of
        (None, None) \<Rightarrow> Inr rawdata
      | (None, Some cs) \<Rightarrow> loc_major cs rawdata
      | (Some ss, None) \<Rightarrow> loc_items ss rawdata
      | (Some ss, Some cs) \<Rightarrow> loc_items_major ss cs rawdata)"

text \<open>
  \<^verbatim>\<open>from_IMF(dataset, series, countries)\<close>. The two downloads \<^verbatim>\<open>_get_weo_data()\<close> and
  \<^verbatim>\<open>_get_pubfin_data()\<close> are parameters holding what the call returns or raises; only the
  one that the dataset names is used.
\<close>

definition from_IMF ::
  "(error + 'v panel) \<Rightarrow> (error + 'v panel) \<Rightarrow> string \<Rightarrow> string list option \<Rightarrow> string list option
     \<Rightarrow> error + 'v panel" where
  "from_IMF get_weo_data get_pubfin_data dataset series countries =
     (let in_data = str_strip (str_lower dataset) in
      case (if in_data = ''weo'' then get_weo_data
            else if in_data = ''pubfin'' then get_pubfin_data
            else Inl ValueError) of
        Inl e \<Rightarrow> Inl e
      | Inr rawdata \<Rightarrow> from_IMF_select rawdata series countries)"

section \<open>The properties as the specification words them\<close>

text \<open>
  The label patterns in the words of the row-filter claim: the whole label is four
  digits (Annual); four digits, a space, \<open>Q\<close> and a digit from 1 to 4 (Quarterly); four
  digits, a space and a three-letter month abbreviation (Monthly).
\<close>

definition claimed_label :: "string \<Rightarrow> string \<Rightarrow> bool" where
  "claimed_label k s =
     (if k = ''A'' then length s = 4 \<and> list_all is_digit s
      else if k = ''Q'' then
        length s = 7 \<and> list_all is_digit (take 4 s) \<and> s ! 4 = CHR '' '' \<and> s ! 5 = CHR ''Q''
        \<and> s ! 6 \<in> set ''1234''
      else if k = ''M'' then
        length s = 8 \<and> list_all is_digit (take 4 s) \<and> s ! 4 = CHR '' ''
        \<and> drop 5 s \<in> set (map str_upper month_abbrs)
      else False)"

text \<open>
  What the patterns of \<^verbatim>\<open>re_dict\<close> ask of the end of a label: four digits; four digits,
  a space, \<open>Q\<close> and any digit; four digits, a space and any three capital letters. A
  label is kept when it ends with such a text, or with such a text and one newline;
  anything may stand before it.
\<close>

definition tail_shape :: "string \<Rightarrow> string \<Rightarrow> bool" where
  "tail_shape k b =
     (if k = ''A'' then length b = 4 \<and> list_all is_digit b
      else if k = ''Q'' then
        length b = 7 \<and> list_all is_digit (take 4 b) \<and> b ! 4 = CHR '' '' \<and> b ! 5 = CHR ''Q''
        \<and> is_digit (b ! 6)
      else if k = ''M'' then
        length b = 8 \<and> list_all is_digit (take 4 b) \<and> b ! 4 = CHR '' ''
        \<and> list_all is_upper_AZ (drop 5 b)
      else False)"

definition label_kept :: "string \<Rightarrow> string \<Rightarrow> bool" where
  "label_kept k s = (\<exists>pre b. tail_shape k b \<and> (s = pre @ b \<or> s = pre @ b @ [newline]))"

text \<open>Valid annual and monthly labels, and the year and month they name.\<close>

definition annual_label :: "string \<Rightarrow> bool" where
  "annual_label s = (length s = 4 \<and> list_all is_digit s)"

definition monthly_label :: "string \<Rightarrow> bool" where
  "monthly_label s =
     (length s = 8 \<and> list_all is_digit (take 4 s) \<and> s ! 4 = CHR '' ''
      \<and> month_of_abbr (drop 5 s) \<noteq> None)"

definition label_year :: "string \<Rightarrow> nat" where
  "label_year s = nat_of_digits (take 4 s)"

definition label_month :: "string \<Rightarrow> nat" where
  "label_month s = the (month_of_abbr (drop 5 s))"

text \<open>A quarterly label in its own form: four digits, a space, \<open>Q\<close> and a digit from 1 to 9.\<close>

definition quarterly_label :: "string \<Rightarrow> bool" where
  "quarterly_label s =
     (length s = 7 \<and> list_all is_digit (take 4 s) \<and> s ! 4 = CHR '' '' \<and> s ! 5 = CHR ''Q''
      \<and> s ! 6 \<in> set ''123456789'')"


section \<open>Auxiliary facts\<close>

lemma map_result_all:
  "(\<And>x. x \<in> set xs \<Longrightarrow> f x = Inr (g x)) \<Longrightarrow> map_result f xs = Inr (map g xs)"
  by (induction xs) auto

lemma map_result_length: "map_result f xs = Inr ys \<Longrightarrow> length ys = length xs"
  by (induction xs arbitrary: ys) (auto split: sum.splits)

lemma index_of_Some: "index_of x xs = Some i \<Longrightarrow> i < length xs \<and> xs ! i = x"
  by (induction xs arbitrary: i) (auto split: if_splits)

lemma index_of_None: "(index_of x xs = None) = (x \<notin> set xs)"
  by (induction xs) auto

section \<open>The row filter (C4)\<close>

lemma rep_exact:
  "match_here (Rep c n n # p) s =
     (n \<le> length s \<and> list_all (in_class c) (take n s) \<and> match_here p (drop n s))"
  by simp

lemma re_search_pos: "re_search p s = (\<exists>i\<le>length s. match_here p (drop i s))"
  unfolding re_search_def list_ex_iff set_upt by (auto simp: less_Suc_eq_le)

lemma re_search_iff: "re_search p s = (\<exists>pre t. s = pre @ t \<and> match_here p t)"
proof
  assume "re_search p s"
  then obtain i where "i \<le> length s" "match_here p (drop i s)"
    unfolding re_search_pos by blast
  then have "s = take i s @ drop i s \<and> match_here p (drop i s)" by simp
  then show "\<exists>pre t. s = pre @ t \<and> match_here p t" by blast
next
  assume "\<exists>pre t. s = pre @ t \<and> match_here p t"
  then obtain pre t where "s = pre @ t" "match_here p t" by blast
  then have "length pre \<le> length s \<and> match_here p (drop (length pre) s)" by simp
  then show "re_search p s"
    unfolding re_search_pos by blast
qed

lemma match_A:
  "match_here [Rep Digit 4 4, Eos] t = (\<exists>b. tail_shape ''A'' b \<and> (t = b \<or> t = b @ [newline]))"
  (is "?L = ?R")
proof
  assume ?L
  then have h: "4 \<le> length t" "list_all is_digit (take 4 t)" "drop 4 t = [] \<or> drop 4 t = [newline]"
    by (auto simp: rep_exact list_all_iff)
  have "t = take 4 t @ drop 4 t" by simp
  with h show ?R unfolding tail_shape_def
    by (metis append_Nil2 length_take min.absorb2)
next
  assume ?R
  then show ?L by (auto simp: tail_shape_def rep_exact list_all_iff)
qed

lemma match_Q:
  "match_here [Rep Digit 4 4, One (Lit CHR '' ''), One (Lit CHR ''Q''), One Digit, Eos] t
     = (\<exists>b. tail_shape ''Q'' b \<and> (t = b \<or> t = b @ [newline]))"
  (is "?L = ?R")
proof
  assume ?L
  then obtain d r where h: "4 \<le> length t" "list_all is_digit (take 4 t)"
      "drop 4 t = CHR '' '' # CHR ''Q'' # d # r" "is_digit d" "r = [] \<or> r = [newline]"
    by (auto simp: rep_exact list_all_iff split: list.splits)
  let ?b = "take 4 t @ [CHR '' '', CHR ''Q'', d]"
  have t: "t = ?b @ r" using h(3) by (metis append_take_drop_id append_Cons append_Nil append_assoc)
  have "tail_shape ''Q'' ?b" using h by (simp add: tail_shape_def nth_append)
  with t h(5) show ?R by (metis append_Nil2)
next
  assume ?R
  then obtain b where b: "tail_shape ''Q'' b" "t = b \<or> t = b @ [newline]" by blast
  then obtain a1 a2 a3 a4 a5 a6 a7 where "b = [a1,a2,a3,a4,a5,a6,a7]"
    by (auto simp: tail_shape_def length_Suc_conv numeral_eq_Suc)
  with b show ?L by (auto simp: tail_shape_def rep_exact)
qed

lemma match_M:
  "match_here [Rep Digit 4 4, One (Lit CHR '' ''), Rep UpperAZ 3 3, Eos] t
     = (\<exists>b. tail_shape ''M'' b \<and> (t = b \<or> t = b @ [newline]))"
  (is "?L = ?R")
proof
  assume ?L
  then obtain u where h: "4 \<le> length t" "list_all is_digit (take 4 t)"
      "drop 4 t = CHR '' '' # u" "3 \<le> length u" "list_all is_upper_AZ (take 3 u)"
      "drop 3 u = [] \<or> drop 3 u = [newline]"
    by (auto simp: rep_exact list_all_iff split: list.splits)
  let ?b = "take 4 t @ CHR '' '' # take 3 u"
  have "t = take 4 t @ CHR '' '' # (take 3 u @ drop 3 u)"
    using h(3) by (metis append_take_drop_id)
  then have t: "t = ?b @ drop 3 u" by simp
  have "tail_shape ''M'' ?b" using h by (simp add: tail_shape_def nth_append)
  with t h(6) show ?R by (metis append_Nil2)
next
  assume ?R
  then obtain b where b: "tail_shape ''M'' b" "t = b \<or> t = b @ [newline]" by blast
  then obtain a1 a2 a3 a4 a5 a6 a7 a8 where "b = [a1,a2,a3,a4,a5,a6,a7,a8]"
    by (auto simp: tail_shape_def length_Suc_conv numeral_eq_Suc)
  with b show ?L by (auto simp: tail_shape_def rep_exact)
qed

lemma re_dict_search:
  assumes "re_dict k = Some p"
  shows "re_search p s = label_kept k s"
proof -
  from assms consider
      (Q) "k = ''Q''" "p = [Rep Digit 4 4, One (Lit CHR '' ''), One (Lit CHR ''Q''), One Digit, Eos]"
    | (A) "k = ''A''" "p = [Rep Digit 4 4, Eos]"
    | (M) "k = ''M''" "p = [Rep Digit 4 4, One (Lit CHR '' ''), Rep UpperAZ 3 3, Eos]"
    by (auto simp: re_dict_def split: if_splits)
  then have "match_here p t = (\<exists>b. tail_shape k b \<and> (t = b \<or> t = b @ [newline]))" for t
  proof cases
    case Q
    then show ?thesis by (simp only: match_Q)
  next
    case A
    then show ?thesis by (simp only: match_A)
  next
    case M
    then show ?thesis by (simp only: match_M)
  qed
  then show ?thesis
    unfolding re_search_iff label_kept_def by metis
qed

text \<open>
  C4, as the code has it. For each key of \<^verbatim>\<open>re_dict\<close> the row filter keeps exactly the
  rows whose label is a string that ends with the text the pattern describes, or with
  that text and one newline, and it keeps them in their order. The patterns are
  anchored at the end only: any text may stand before the four digits, the quarter
  digit may be any digit, and the three capital letters need not name a month. A row
  whose label is missing is dropped.
\<close>

theorem row_filter_keeps_pattern_suffix:
  assumes "re_dict k = Some p"
  shows "row_filter p rows
     = filter (\<lambda>r. case fst r of None \<Rightarrow> False | Some s \<Rightarrow> label_kept k s) rows"
  unfolding row_filter_def str_contains_def re_dict_search[OF assms] ..

theorem row_filter_keeps_pattern_suffix_witness:
  "re_dict ''Q'' = Some [Rep Digit 4 4, One (Lit CHR '' ''), One (Lit CHR ''Q''), One Digit, Eos]
   \<and> filter (\<lambda>r. case fst r of None \<Rightarrow> False | Some s \<Rightarrow> label_kept ''Q'' s)
        [(Some ''2002'', [1::nat]), (Some ''2002 Q2'', [2]), (None, [3]), (Some ''2002 Q3'', [4])]
     = [(Some ''2002 Q2'', [2]), (Some ''2002 Q3'', [4])]"
proof -
  let ?p = "[Rep Digit 4 4, One (Lit CHR '' ''), One (Lit CHR ''Q''), One Digit, Eos]"
  let ?rows = "[(Some ''2002'', [1::nat]), (Some ''2002 Q2'', [2]), (None, [3]), (Some ''2002 Q3'', [4])]"
  have k: "re_dict ''Q'' = Some ?p" by (simp add: re_dict_def)
  have "row_filter ?p ?rows = [(Some ''2002 Q2'', [2]), (Some ''2002 Q3'', [4])]"
    by code_simp
  with row_filter_keeps_pattern_suffix [OF k, of ?rows] k show ?thesis by simp
qed

text \<open>
  The claim as it is worded fails: the quarterly filter keeps \<open>2002 Q7\<close>, the annual
  filter keeps \<open>ab 2013\<close> and the monthly filter keeps \<open>2002 XYZ\<close>, none of which has
  the claimed form.
\<close>

theorem row_filter_not_exact_counterexample:
  "row_filter (the (re_dict ''Q'')) [(Some ''2002 Q7'', [0::nat])] = [(Some ''2002 Q7'', [0])]
   \<and> \<not> claimed_label ''Q'' ''2002 Q7''
   \<and> row_filter (the (re_dict ''A'')) [(Some ''ab 2013'', [0::nat])] = [(Some ''ab 2013'', [0])]
   \<and> \<not> claimed_label ''A'' ''ab 2013''
   \<and> row_filter (the (re_dict ''M'')) [(Some ''2002 XYZ'', [0::nat])] = [(Some ''2002 XYZ'', [0])]
   \<and> \<not> claimed_label ''M'' ''2002 XYZ''"
  by code_simp

section \<open>Annual and monthly dates (C2, C3)\<close>

lemma strptime_Y_value:
  assumes "length s = 4" "list_all is_digit s" "1678 \<le> nat_of_digits s" "nat_of_digits s \<le> 2262"
  shows "strptime_Y s = Inr (Timestamp (nat_of_digits s) 1 1)"
  using assms
  by (simp add: strptime_Y_def make_timestamp_def valid_date_def in_bounds_def days_in_month_def)

lemma space_not_lower_letter: "is_space c \<Longrightarrow> lower_char c = c"
  unfolding is_space_def by (elim insertE emptyE; simp add: lower_char_def)

lemma month_of_abbr_Some:
  assumes "month_of_abbr r = Some m"
  shows "1 \<le> m \<and> m \<le> 12 \<and> dropWhile is_space r = r"
proof -
  from assms obtain i where i: "index_of (str_lower r) month_abbrs = Some i" "m = Suc i"
    by (auto simp: month_of_abbr_def)
  have len12: "length month_abbrs = 12" by (simp add: month_abbrs_def)
  from index_of_Some[OF i(1)] have ix: "i < length month_abbrs" "month_abbrs ! i = str_lower r"
    by auto
  have mem: "i < 12" "str_lower r \<in> set month_abbrs"
    using ix len12 nth_mem[OF ix(1)] by auto
  have hd_in: "hd t \<in> set ''jfmasond'' \<and> t \<noteq> []" if "t \<in> set month_abbrs" for t
    using that by (auto simp: month_abbrs_def)
  from hd_in[OF mem(2)] have "r \<noteq> []" "hd (str_lower r) \<in> set ''jfmasond''"
    by (auto simp: str_lower_def)
  then obtain c cs where r: "r = c # cs" "lower_char c \<in> set ''jfmasond''"
    by (cases r) (auto simp: str_lower_def)
  have "\<not> is_space c"
  proof
    assume sp: "is_space c"
    then have "lower_char c = c" by (rule space_not_lower_letter)
    with r(2) have "c \<in> set ''jfmasond''" by simp
    with sp show False by (auto simp: is_space_def)
  qed
  with r(1) have "dropWhile is_space r = r" by simp
  moreover have "1 \<le> m \<and> m \<le> 12" using i(2) mem(1) by simp
  ultimately show ?thesis by simp
qed


lemma strptime_Y_b_value:
  assumes "monthly_label s" "in_bounds (Timestamp (label_year s) (label_month s) 1)"
  shows "strptime_Y_b s = Inr (Timestamp (label_year s) (label_month s) 1)"
proof -
  from assms(1) obtain m where m: "month_of_abbr (drop 5 s) = Some m"
    by (auto simp: monthly_label_def)
  from month_of_abbr_Some[OF m] have mm: "1 \<le> m" "m \<le> 12" "dropWhile is_space (drop 5 s) = drop 5 s"
    by auto
  from assms(1) have len: "length s = 8" "list_all is_digit (take 4 s)" "s ! 4 = CHR '' ''"
    by (auto simp: monthly_label_def)
  have d4: "drop 4 s = CHR '' '' # drop 5 s"
  proof -
    have "4 < length s" using len(1) by simp
    then have "drop 4 s = s ! 4 # drop (Suc 4) s" by (rule Cons_nth_drop_Suc[symmetric])
    then show ?thesis using len(3) by simp
  qed
  have sp: "is_space CHR '' ''" by (simp add: is_space_def)
  have dw: "dropWhile is_space (drop 4 s) = drop 5 s" using d4 sp mm(3) by simp
  have ne: "drop 5 s \<noteq> drop 4 s" using d4 by simp
  have lm: "label_month s = m" using m by (simp add: label_month_def)
  have ib: "in_bounds (Timestamp (label_year s) m 1)" using assms(2) lm by simp
  then have y: "1 \<le> label_year s" "label_year s \<le> 9999" by (auto simp: in_bounds_def)
  have dm: "1 \<le> days_in_month (label_year s) m" by (simp add: days_in_month_def)
  have mk: "make_timestamp (label_year s) m 1 = Inr (Timestamp (label_year s) m 1)"
    using ib y mm dm by (simp add: make_timestamp_def valid_date_def)
  show ?thesis
    using len dw ne m mk lm by (simp add: strptime_Y_b_def Let_def label_year_def)
qed


text \<open>
  C2, as the code has it. \<^verbatim>\<open>pd.to_datetime(index, format='%Y')\<close> gives every label of
  four digits the first of January of its year, not the 31st of December; the labels
  are parsed one by one, whatever their order. The year has to lie in the range of a
  pandas timestamp (1678 to 2262).
\<close>

theorem annual_index_first_of_january:
  assumes "list_all (\<lambda>r. case fst r of None \<Rightarrow> False
             | Some s \<Rightarrow> annual_label s \<and> 1678 \<le> label_year s \<and> label_year s \<le> 2262) df"
  shows "timeseries_index parse_other df ''A''
     = Inr \<lparr>index = Stamps (map (\<lambda>r. Some (Timestamp (label_year (the (fst r))) 1 1)) df),
            cells = map snd df\<rparr>"
proof -
  let ?f = "\<lambda>l. case l of None \<Rightarrow> Inr None
             | Some s \<Rightarrow> (case strptime_Y s of Inl e \<Rightarrow> Inl e | Inr t \<Rightarrow> Inr (Some t))"
  let ?g = "\<lambda>l. Some (Timestamp (label_year (the l)) 1 1)"
  have "?f l = Inr (?g l)" if "l \<in> set (map fst df)" for l
  proof -
    from that assms obtain s where s: "l = Some s" "annual_label s"
        "1678 \<le> label_year s" "label_year s \<le> 2262"
      by (auto simp: list_all_iff split: option.splits)
    then have "take 4 s = s" by (simp add: annual_label_def)
    with s show ?thesis
      by (simp add: strptime_Y_value annual_label_def label_year_def)
  qed
  then have "to_datetime strptime_Y (map fst df) = Inr (map ?g (map fst df))"
    unfolding to_datetime_def by (rule map_result_all)
  then show ?thesis
    by (simp add: timeseries_index_def comp_def)
qed

theorem annual_index_first_of_january_witness:
  "list_all (\<lambda>r. case fst r of None \<Rightarrow> False
      | Some s \<Rightarrow> annual_label s \<and> 1678 \<le> label_year s \<and> label_year s \<le> 2262)
     [(Some ''2013'', [5::nat]), (Some ''1999'', [7])]
   \<and> timeseries_index (\<lambda>_. Inl ValueError) [(Some ''2013'', [5::nat]), (Some ''1999'', [7])] ''A''
     = Inr \<lparr>index = Stamps [Some (Timestamp 2013 1 1), Some (Timestamp 1999 1 1)],
            cells = [[5], [7]]\<rparr>"
proof -
  let ?df = "[(Some ''2013'', [5::nat]), (Some ''1999'', [7])]"
  have h: "list_all (\<lambda>r. case fst r of None \<Rightarrow> False
      | Some s \<Rightarrow> annual_label s \<and> 1678 \<le> label_year s \<and> label_year s \<le> 2262) ?df"
    by code_simp
  have v: "map (\<lambda>r. Some (Timestamp (label_year (the (fst r))) 1 1)) ?df
     = [Some (Timestamp 2013 1 1), Some (Timestamp 1999 1 1)]"
    by code_simp
  from annual_index_first_of_january [OF h, of "\<lambda>_. Inl ValueError"] v h show ?thesis
    by simp
qed

text \<open>The claim as it is worded fails: the label \<open>2013\<close> is dated 2013-01-01.\<close>

theorem annual_not_year_end_counterexample:
  "timeseries_index (\<lambda>_. Inl ValueError) [(Some ''2013'', [5::nat])] ''A''
     = Inr \<lparr>index = Stamps [Some (Timestamp 2013 1 1)], cells = [[5]]\<rparr>
   \<and> Timestamp 2013 1 1 \<noteq> Timestamp 2013 12 31"
  by code_simp

text \<open>
  C3, as the code has it. \<^verbatim>\<open>pd.to_datetime(index, format='%Y %b')\<close> gives every label
  of four digits, a space and a month abbreviation the first day of that month of that
  year, not the last day; the labels are parsed one by one. The day has to lie in the
  range of a pandas timestamp.
\<close>

theorem monthly_index_first_of_month:
  assumes "list_all (\<lambda>r. case fst r of None \<Rightarrow> False
             | Some s \<Rightarrow> monthly_label s \<and> in_bounds (Timestamp (label_year s) (label_month s) 1)) df"
  shows "timeseries_index parse_other df ''M''
     = Inr \<lparr>index = Stamps (map (\<lambda>r. Some (Timestamp (label_year (the (fst r)))
                                                 (label_month (the (fst r))) 1)) df),
            cells = map snd df\<rparr>"
proof -
  let ?f = "\<lambda>l. case l of None \<Rightarrow> Inr None
             | Some s \<Rightarrow> (case strptime_Y_b s of Inl e \<Rightarrow> Inl e | Inr t \<Rightarrow> Inr (Some t))"
  let ?g = "\<lambda>l. Some (Timestamp (label_year (the l)) (label_month (the l)) 1)"
  have "?f l = Inr (?g l)" if "l \<in> set (map fst df)" for l
  proof -
    from that assms obtain s where s: "l = Some s" "monthly_label s"
        "in_bounds (Timestamp (label_year s) (label_month s) 1)"
      by (auto simp: list_all_iff split: option.splits)
    then show ?thesis by (simp add: strptime_Y_b_value)
  qed
  then have "to_datetime strptime_Y_b (map fst df) = Inr (map ?g (map fst df))"
    unfolding to_datetime_def by (rule map_result_all)
  then show ?thesis
    by (simp add: timeseries_index_def comp_def)
qed

theorem monthly_index_first_of_month_witness:
  "list_all (\<lambda>r. case fst r of None \<Rightarrow> False
      | Some s \<Rightarrow> monthly_label s \<and> in_bounds (Timestamp (label_year s) (label_month s) 1))
     [(Some ''2002 JAN'', [5::nat]), (Some ''1999 DEC'', [7])]
   \<and> timeseries_index (\<lambda>_. Inl ValueError)
        [(Some ''2002 JAN'', [5::nat]), (Some ''1999 DEC'', [7])] ''M''
     = Inr \<lparr>index = Stamps [Some (Timestamp 2002 1 1), Some (Timestamp 1999 12 1)],
            cells = [[5], [7]]\<rparr>"
proof -
  let ?df = "[(Some ''2002 JAN'', [5::nat]), (Some ''1999 DEC'', [7])]"
  have h: "list_all (\<lambda>r. case fst r of None \<Rightarrow> False
      | Some s \<Rightarrow> monthly_label s \<and> in_bounds (Timestamp (label_year s) (label_month s) 1)) ?df"
    by code_simp
  have v: "map (\<lambda>r. Some (Timestamp (label_year (the (fst r))) (label_month (the (fst r))) 1)) ?df
     = [Some (Timestamp 2002 1 1), Some (Timestamp 1999 12 1)]"
    by code_simp
  from monthly_index_first_of_month [OF h, of "\<lambda>_. Inl ValueError"] v h show ?thesis
    by simp
qed

text \<open>The claim as it is worded fails: the label \<open>2002 JAN\<close> is dated 2002-01-01.\<close>

theorem monthly_not_month_end_counterexample:
  "timeseries_index (\<lambda>_. Inl ValueError) [(Some ''2002 JAN'', [5::nat])] ''M''
     = Inr \<lparr>index = Stamps [Some (Timestamp 2002 1 1)], cells = [[5]]\<rparr>
   \<and> Timestamp 2002 1 1 \<noteq> Timestamp 2002 1 31"
  by code_simp

section \<open>The quarterly index (C1)\<close>

lemma quarter_ends_from_length: "length (quarter_ends_from t n) = n"
  by (induction n arbitrary: t) auto

lemma quarterly_index_length:
  "create_quarterly_index parse_other dfindex = Inr ts \<Longrightarrow> length ts = length dfindex"
  by (auto simp: create_quarterly_index_def date_range_Q_def Let_def quarter_ends_from_length
      split: list.splits option.splits sum.splits if_splits)

text \<open>
  C1 at its own example. The first label \<open>2002 Q2\<close> gives the quarter number 2 and the
  text \<^verbatim>\<open>'1/6/2002'\<close>, which pandas reads month first, as the 6th of January 2002. The
  four quarter ends from that day on begin with 2002-03-31, not with 2002-06-30: every
  row is dated one quarter early.
\<close>

theorem quarterly_index_2002_Q2:
  "create_quarterly_index parse_other
     [Some ''2002 Q2'', Some ''2002 Q3'', Some ''2002 Q4'', Some ''2003 Q1'']
   = Inr [Timestamp 2002 3 31, Timestamp 2002 6 30, Timestamp 2002 9 30, Timestamp 2002 12 31]"
  by code_simp

text \<open>
  The same holds for every first label of the form \<open>YYYY Qn\<close>: the number \<open>3 * n\<close> is
  read as a day of January, so an index that is built starts at the 31st of March of the
  label's year, whatever the quarter \<open>n\<close>; only for \<open>n = 1\<close> is that the end of the
  labelled quarter.
\<close>

lemma digit_not_space: "is_digit c \<Longrightarrow> \<not> is_space c"
  unfolding is_digit_def is_space_def by auto

lemma digit_not_slash: "is_digit c \<Longrightarrow> c \<noteq> CHR ''/''"
  unfolding is_digit_def by auto

lemma quarterly_start_string:
  assumes "is_digit a" "is_digit b" "is_digit c" "is_digit d" "q \<in> set ''123456789''"
  shows "str_split [a, b, c, d, CHR '' '', CHR ''Q'', q] = [[a, b, c, d], [CHR ''Q'', q]]"
    and "\<exists>k. int_of_char q = Some k \<and> 1 \<le> k \<and> k \<le> 9"
proof -
  have q: "is_digit q" using assms(5) by (auto simp: is_digit_def)
  have sp: "is_space CHR '' ''" "\<not> is_space CHR ''Q''" by (auto simp: is_space_def)
  show "str_split [a, b, c, d, CHR '' '', CHR ''Q'', q] = [[a, b, c, d], [CHR ''Q'', q]]"
    using assms(1-4) q sp by (simp add: str_split_def digit_not_space)
  show "\<exists>k. int_of_char q = Some k \<and> 1 \<le> k \<and> k \<le> 9"
    using assms(5) by (auto simp: int_of_char_def is_digit_def digit_val_def)
qed

lemma parse_january:
  assumes "is_digit a" "is_digit b" "is_digit c" "is_digit d" "1 \<le> k" "k \<le> 9"
  shows "parse_datetime_string parse_other (''1/'' @ str_nat (3 * k) @ ''/'' @ [a, b, c, d])
     = make_timestamp (nat_of_digits [a, b, c, d]) 1 (3 * k)"
proof -
  from assms(5,6) consider "k = 1" | "k = 2" | "k = 3" | "k = 4" | "k = 5" | "k = 6"
    | "k = 7" | "k = 8" | "k = 9" by linarith
  then obtain t where t: "str_nat (3 * k) = t" "t \<noteq> []" "length t \<le> 2" "list_all is_digit t"
      "nat_of_digits t = 3 * k"
    by cases (simp_all add: str_nat.simps digit_char_def is_digit_def nat_of_digits_def digit_val_def)
  have ns: "CHR ''/'' \<notin> set t" using t(4) digit_not_slash by (auto simp: list_all_iff)
  have sp1: "split_on CHR ''/'' (t @ ''/'' @ [a, b, c, d]) = [t, [a, b, c, d]]"
    using ns assms(1-4) by (induction t) (auto simp: digit_not_slash)
  have sp: "split_on CHR ''/'' (''1/'' @ t @ ''/'' @ [a, b, c, d]) = [''1'', t, [a, b, c, d]]"
    using sp1 by simp
  have one: "nat_of_digits ''1'' = 1" "list_all is_digit ''1''"
    by (simp_all add: nat_of_digits_def digit_val_def is_digit_def)
  show ?thesis
    unfolding t(1) parse_datetime_string_def sp using t assms(1-4) one by simp
qed

lemma rollforward_january: "rollforward (Timestamp y 1 d) = Timestamp y 3 31"
  by (simp add: rollforward_def quarter_end_def days_in_month_def)

lemma quarterly_index_starts_in_march:
  assumes "quarterly_label l"
      and "create_quarterly_index parse_other (Some l # rest) = Inr ts"
  shows "ts = quarter_ends_from (Timestamp (label_year l) 3 31) (Suc (length rest))"
proof -
  from assms(1) obtain a b c d q where l: "l = [a, b, c, d, CHR '' '', CHR ''Q'', q]"
      and dg: "is_digit a" "is_digit b" "is_digit c" "is_digit d" and q: "q \<in> set ''123456789''"
    by (auto simp: quarterly_label_def length_Suc_conv numeral_eq_Suc)
  from quarterly_start_string[OF dg q] obtain k where
      sp: "str_split l = [[a, b, c, d], [CHR ''Q'', q]]" and k: "int_of_char q = Some k" "1 \<le> k" "k \<le> 9"
    unfolding l by blast
  have y: "label_year l = nat_of_digits [a, b, c, d]" by (simp add: l label_year_def)
  from assms(2) sp k(1) have dr: "date_range_Q parse_other
      (''1/'' @ str_nat (3 * k) @ ''/'' @ [a, b, c, d]) (Suc (length rest)) = Inr ts"
    by (simp add: create_quarterly_index_def Let_def)
  then obtain t where t: "make_timestamp (label_year l) 1 (3 * k) = Inr t"
      and ts: "ts = quarter_ends_from (rollforward t) (Suc (length rest))"
    unfolding date_range_Q_def parse_january[OF dg k(2,3)] y Let_def
    by (auto split: sum.splits if_splits)
  from t have "t = Timestamp (label_year l) 1 (3 * k)"
    by (auto simp: make_timestamp_def split: if_splits)
  with ts show ?thesis by (simp only: rollforward_january)
qed

lemma quarterly_index_starts_in_march_witness:
  "quarterly_label ''2002 Q4''
   \<and> create_quarterly_index (\<lambda>_. Inl ValueError) [Some ''2002 Q4'', Some ''2003 Q1'']
       = Inr [Timestamp 2002 3 31, Timestamp 2002 6 30]
   \<and> [Timestamp 2002 3 31, Timestamp 2002 6 30]
       = quarter_ends_from (Timestamp (label_year ''2002 Q4'') 3 31) (Suc (length [Some ''2003 Q1'']))"
proof -
  have a: "quarterly_label ''2002 Q4''" by code_simp
  have b: "create_quarterly_index (\<lambda>_. Inl ValueError) [Some ''2002 Q4'', Some ''2003 Q1'']
       = Inr [Timestamp 2002 3 31, Timestamp 2002 6 30]" by code_simp
  from quarterly_index_starts_in_march [OF a b] a b show ?thesis by simp
qed

lemma quarterly_index_length_witness:
  "create_quarterly_index (\<lambda>_. Inl ValueError) [Some ''2002 Q4'', Some ''2003 Q1'']
       = Inr [Timestamp 2002 3 31, Timestamp 2002 6 30]
   \<and> length [Timestamp 2002 3 31, Timestamp 2002 6 30]
       = length [Some ''2002 Q4'', Some ''2003 Q1'']"
proof -
  have b: "create_quarterly_index (\<lambda>_. Inl ValueError) [Some ''2002 Q4'', Some ''2003 Q1'']
       = Inr [Timestamp 2002 3 31, Timestamp 2002 6 30]" by code_simp
  from quarterly_index_length [OF b] b show ?thesis by simp
qed

section \<open>The single-series build (C5, C10)\<close>



text \<open>A frame that \<^verbatim>\<open>from_ONS\<close> returns has at least one row.\<close>

lemma from_ONS_frame_nonempty:
  assumes "fst (from_ONS read_csv parse_other to_float dataset series freq print_url) = Inr (Some df)"
  shows "cells df \<noteq> []"
proof -
  from assms obtain dfraw p df0 where
      sel: "row_filter p dfraw \<noteq> []"
      and ti: "timeseries_index parse_other (row_filter p dfraw) (str_upper freq) = Inr df0"
      and at: "astype_float to_float df0 = Inr df"
    by (auto simp: from_ONS_def Let_def split: sum.splits option.splits if_splits)
  from ti have "cells df0 = map snd (row_filter p dfraw)"
    by (auto simp: timeseries_index_def Let_def split: if_splits sum.splits)
  with sel have "cells df0 \<noteq> []" by simp
  moreover from at have "length (cells df) = length (cells df0)"
    by (auto simp: astype_float_def split: sum.splits dest: map_result_length)
  ultimately show ?thesis by auto
qed



section \<open>The numeric coercer (C6, C7)\<close>




lemma float_convert_error: "fst (float_convert float_of v) = Inl e \<Longrightarrow> e = ValueError"
  by (cases v) (auto simp: Let_def split: if_splits)

lemma applymap_error:
  "fst (applymap (float_convert float_of) cs) = Inl e \<Longrightarrow> e = ValueError"
proof (induction cs)
  case Nil
  then show ?case by simp
next
  case (Cons c cs)
  obtain r out where fc: "float_convert float_of c = (r, out)" by (cases "float_convert float_of c")
  show ?case
  proof (cases r)
    case (Inl a)
    with fc Cons.prems have "a = e" by simp
    moreover from fc Inl have "fst (float_convert float_of c) = Inl a" by simp
    ultimately show ?thesis using float_convert_error by blast
  next
    case (Inr y)
    with fc Cons.prems have "fst (applymap (float_convert float_of) cs) = Inl e"
      by (auto split: prod.splits sum.splits)
    then show ?thesis by (rule Cons.IH)
  qed
qed

lemma applymap_aborts:
  assumes "x \<in> set cs" "fst (f x) = Inl e"
  shows "\<exists>e'. fst (applymap f cs) = Inl e'"
  using assms
proof (induction cs)
  case Nil
  then show ?case by simp
next
  case (Cons c cs)
  show ?case
  proof (cases "fst (f c)")
    case (Inl a)
    then show ?thesis by (auto split: prod.splits sum.splits)
  next
    case (Inr b)
    with Cons have "\<exists>e'. fst (applymap f cs) = Inl e'" by auto
    with Inr show ?thesis by (auto split: prod.splits sum.splits)
  qed
qed

text \<open>
  C7, as the code has it. For a value that is neither a string nor a float the call
  does not raise: it prints \<^verbatim>\<open>Encountered type\<close> with the type and returns \<open>None\<close>,
  which keeps nothing of the value. For a string that is no float literal once its
  commas are gone the call raises ValueError, and an \<^verbatim>\<open>applymap\<close> over cells that hold
  such a string raises ValueError too.
\<close>

theorem float_convert_failures:
  "((\<forall>s. v \<noteq> PStr s) \<and> (\<forall>x. v \<noteq> PFloat x)
      \<longrightarrow> float_convert float_of v = (Inr PNone, [''Encountered type '' @ type_repr v]))
   \<and> (\<not> float_literal (str_remove CHR '','' s)
      \<longrightarrow> float_convert float_of (PStr s) = (Inl ValueError, [])
        \<and> (PStr s \<in> set cs \<longrightarrow> fst (applymap (float_convert float_of) cs) = Inl ValueError))"
proof -
  have a: "float_convert float_of v = (Inr PNone, [''Encountered type '' @ type_repr v])"
    if "\<forall>s. v \<noteq> PStr s" "\<forall>x. v \<noteq> PFloat x"
    using that by (cases v) auto
  have b: "float_convert float_of (PStr s) = (Inl ValueError, [])"
    if "\<not> float_literal (str_remove CHR '','' s)"
    using that by (simp add: Let_def)
  have c: "fst (applymap (float_convert float_of) cs) = Inl ValueError"
    if "\<not> float_literal (str_remove CHR '','' s)" "PStr s \<in> set cs"
  proof -
    from b[OF that(1)] have "fst (float_convert float_of (PStr s)) = Inl ValueError" by simp
    from applymap_aborts[of "PStr s" cs "float_convert float_of" ValueError, OF that(2) this] obtain e'
      where "fst (applymap (float_convert float_of) cs) = Inl e'" by blast
    with applymap_error[OF this] show ?thesis by simp
  qed
  from a b c show ?thesis by blast
qed

theorem float_convert_failures_witness:
  "(\<forall>s. PInt 3 \<noteq> (PStr s :: string pyval)) \<and> (\<forall>x. PInt 3 \<noteq> (PFloat x :: string pyval))
   \<and> float_convert (\<lambda>s. s) (PInt 3)
       = (Inr PNone, [''Encountered type <class '' @ [quote] @ ''int'' @ [quote] @ ''>''])
   \<and> \<not> float_literal (str_remove CHR '','' ''a,bc'')
   \<and> float_convert (\<lambda>s. s) (PStr ''a,bc'') = (Inl ValueError, [])
   \<and> PStr ''a,bc'' \<in> set [PFloat ''2.5'', PStr ''a,bc'', PStr ''7'']
   \<and> fst (applymap (float_convert (\<lambda>s. s)) [PFloat ''2.5'', PStr ''a,bc'', PStr ''7''])
       = Inl ValueError"
proof -
  have n: "\<not> float_literal (str_remove CHR '','' ''a,bc'')" by code_simp
  have t: "type_repr (PInt 3 :: string pyval) = ''<class '' @ [quote] @ ''int'' @ [quote] @ ''>''"
    by (simp add: type_repr_def)
  from float_convert_failures [of "PInt 3" "\<lambda>s. s" "''a,bc''"
      "[PFloat ''2.5'', PStr ''a,bc'', PStr ''7'']"] n t
  show ?thesis by simp
qed

text \<open>The claim as it is worded fails: on the text \<open>abc\<close> the call raises.\<close>

theorem float_convert_raises_counterexample:
  "float_convert (\<lambda>s. s) (PStr ''abc'') = (Inl ValueError, [])
   \<and> fst (applymap (float_convert (\<lambda>s. s)) [PFloat ''2.5'', PStr ''abc'', PFloat ''1.0''])
       = Inl ValueError"
  by code_simp

section \<open>Panel selection (C8, C9)\<close>

text \<open>
  C8. With neither codes nor countries, the selection returns the panel it was given,
  and \<^verbatim>\<open>from_IMF\<close> returns what the download of the named dataset returned: the same
  axes and the same values.
\<close>

theorem select_nothing_is_identity:
  "from_IMF_select rawdata None None = Inr rawdata
   \<and> from_IMF get_weo_data get_pubfin_data dataset None None
       = (if str_strip (str_lower dataset) = ''weo'' then get_weo_data
          else if str_strip (str_lower dataset) = ''pubfin'' then get_pubfin_data
          else Inl ValueError)"
  by (auto simp: from_IMF_select_def from_IMF_def Let_def split: sum.splits)

theorem select_nothing_is_identity_witness:
  "from_IMF (Inr \<lparr>items = [''X''], major_axis = [''UK''], minor_axis = [''2000'', ''2001''],
                  panel_values = [[[Some (5::nat), Some 7]]]\<rparr>) (Inl TransportError)
      '' WEO '' None None
     = Inr \<lparr>items = [''X''], major_axis = [''UK''], minor_axis = [''2000'', ''2001''],
            panel_values = [[[Some 5, Some 7]]]\<rparr>"
proof -
  let ?p = "\<lparr>items = [''X''], major_axis = [''UK''], minor_axis = [''2000'', ''2001''],
             panel_values = [[[Some (5::nat), Some 7]]]\<rparr>"
  have "str_strip (str_lower '' WEO '') = ''weo''" by code_simp
  with select_nothing_is_identity [where rawdata = ?p and get_weo_data = "Inr ?p"
      and get_pubfin_data = "Inl TransportError" and dataset = "'' WEO ''"]
  show ?thesis by simp
qed






end
